theory Spec2Isabelle
  imports Complex_Main
begin

section \<open>Values and failures\<close>

text \<open>
  The notebook computes on \<open>tf.float32\<close> tensors.  A finite float is read as the
  rational number it denotes, so rounding and overflow are left out.  The gradient
  vectors of \<open>top_1_compression\<close> are lists of such rationals.  The temperature
  readings and everything computed from them are values of \<open>f32\<close>, which adds the
  floats that are not numbers: a float division raises nothing, and a zero divisor
  gives NaN or an infinity as an ordinary value.  The two zeros of float32 are not
  told apart; a zero divisor is read as \<open>+0.0\<close>, which is what a count that starts at
  \<open>0.0\<close> and only grows can be.
\<close>

datatype f32 = Finite rat | PosInf | NegInf | NaN

text \<open>
  A call the framework rejects is a value of \<open>tf_error\<close>: TensorFlow's
  \<open>InvalidArgumentError\<close>, and the \<open>ValueError\<close> with which TensorFlow Federated
  refuses a value placed at zero clients.  A computation returns \<open>Inl e\<close> for a
  failure and \<open>Inr v\<close> for a result.
\<close>

datatype tf_error = InvalidArgument | ValueError

section \<open>The TensorFlow operators the notebook calls\<close>

text \<open>
  The operators of this section and the next belong to TensorFlow and TensorFlow
  Federated, not to the notebook.  Each is defined here by its documented behaviour
  on the vectors, sequences and client lists the notebook passes to it.
\<close>

text \<open>Sign and zero tests used by the float operators below.\<close>

fun negative :: "f32 \<Rightarrow> bool" where
  "negative (Finite a) = (a < 0)"
| "negative NegInf = True"
| "negative _ = False"

fun is_zero :: "f32 \<Rightarrow> bool" where
  "is_zero (Finite a) = (a = 0)"
| "is_zero _ = False"

text \<open>
  \<open>+\<close> on floats (\<open>tf.add\<close>): NaN is absorbing and the sum of the two infinities is
  NaN.
\<close>

fun tf_add :: "f32 \<Rightarrow> f32 \<Rightarrow> f32" where
  "tf_add (Finite a) (Finite b) = Finite (a + b)"
| "tf_add NaN _ = NaN"
| "tf_add _ NaN = NaN"
| "tf_add PosInf NegInf = NaN"
| "tf_add NegInf PosInf = NaN"
| "tf_add PosInf _ = PosInf"
| "tf_add _ PosInf = PosInf"
| "tf_add NegInf _ = NegInf"
| "tf_add _ NegInf = NegInf"

text \<open>\<open>*\<close> on floats (\<open>tf.multiply\<close>): an infinity times zero is NaN.\<close>

fun tf_multiply :: "f32 \<Rightarrow> f32 \<Rightarrow> f32" where
  "tf_multiply (Finite a) (Finite b) = Finite (a * b)"
| "tf_multiply NaN _ = NaN"
| "tf_multiply _ NaN = NaN"
| "tf_multiply x y =
     (if is_zero x \<or> is_zero y then NaN
      else if negative x = negative y then PosInf else NegInf)"

text \<open>
  \<open>/\<close> on floats (\<open>tf.truediv\<close>, the notebook's \<open>total / n_obs\<close>): zero over zero
  and an infinity over an infinity are NaN, another number over zero is an infinity
  of its sign, and no case raises.
\<close>

fun tf_truediv :: "f32 \<Rightarrow> f32 \<Rightarrow> f32" where
  "tf_truediv (Finite a) (Finite b) =
     (if b \<noteq> 0 then Finite (a / b)
      else if a = 0 then NaN
      else if 0 < a then PosInf else NegInf)"
| "tf_truediv NaN _ = NaN"
| "tf_truediv _ NaN = NaN"
| "tf_truediv (Finite a) _ = Finite 0"
| "tf_truediv x (Finite b) = (if negative x = (b < 0) then PosInf else NegInf)"
| "tf_truediv _ _ = NaN"

text \<open>\<open>tf.abs\<close>: elementwise absolute value.\<close>

definition tf_abs :: "rat list \<Rightarrow> rat list" where
  "tf_abs x = map abs x"

text \<open>
  \<open>tf.math.top_k(input, k)\<close> on a vector: the \<open>k\<close> largest entries in descending
  order and their indices; of two equal entries the one with the lower index comes
  first.  TensorFlow rejects an input with fewer than \<open>k\<close> entries.
\<close>

definition top_k :: "rat list \<Rightarrow> nat \<Rightarrow> tf_error + (rat list \<times> nat list)" where
  "top_k input k =
     (if length input < k then Inl InvalidArgument
      else (let ranked = take k (sort_key (\<lambda>(i, v). - v) (enumerate 0 input))
            in Inr (map snd ranked, map fst ranked)))"

text \<open>\<open>tf.gather(params, indices)\<close> on a vector; an index out of range is rejected.\<close>

fun tf_gather :: "rat list \<Rightarrow> nat list \<Rightarrow> tf_error + rat list" where
  "tf_gather params [] = Inr []"
| "tf_gather params (i # rest) =
     (if i < length params
      then (case tf_gather params rest of
              Inl e \<Rightarrow> Inl e
            | Inr vs \<Rightarrow> Inr (params ! i # vs))
      else Inl InvalidArgument)"

text \<open>\<open>tf.zeros_like\<close> and \<open>tf.expand_dims(indices, axis=1)\<close>.\<close>

definition zeros_like :: "rat list \<Rightarrow> rat list" where
  "zeros_like x = replicate (length x) 0"

definition expand_dims :: "nat list \<Rightarrow> nat list list" where
  "expand_dims indices = map (\<lambda>i. [i]) indices"

text \<open>
  \<open>tf.tensor_scatter_nd_add(tensor, indices, updates)\<close> on a vector: every row of
  \<open>indices\<close> is a one-element index, and the matching update is added to the entry
  there (a repeated index adds up).  Rows of another length, a different number of
  rows and updates, and an index out of range are rejected.
\<close>

fun tensor_scatter_nd_add :: "rat list \<Rightarrow> nat list list \<Rightarrow> rat list \<Rightarrow> tf_error + rat list" where
  "tensor_scatter_nd_add tensor [] [] = Inr tensor"
| "tensor_scatter_nd_add tensor ([i] # rest) (u # us) =
     (if i < length tensor
      then tensor_scatter_nd_add (tensor[i := tensor ! i + u]) rest us
      else Inl InvalidArgument)"
| "tensor_scatter_nd_add tensor _ _ = Inl InvalidArgument"

text \<open>\<open>tf.data.Dataset.reduce(initial_state, reduce_func)\<close>: a left fold.\<close>

definition dataset_reduce :: "'s \<Rightarrow> ('s \<Rightarrow> 'a \<Rightarrow> 's) \<Rightarrow> 'a list \<Rightarrow> 's" where
  "dataset_reduce initial_state reduce_func ds = foldl reduce_func initial_state ds"

section \<open>The federated operators the notebook calls\<close>

text \<open>
  A value placed at the clients is the list of the clients' member values.  The
  framework refuses such a value when it has no member (\<open>ValueError\<close>: the
  cardinality must be at least one).
\<close>

text \<open>Running a computation at every member; the first failing member fails the run.\<close>

fun run_members :: "('a \<Rightarrow> tf_error + 'b) \<Rightarrow> 'a list \<Rightarrow> tf_error + 'b list" where
  "run_members fn [] = Inr []"
| "run_members fn (x # xs) =
     (case fn x of
        Inl e \<Rightarrow> Inl e
      | Inr y \<Rightarrow> (case run_members fn xs of
                    Inl e \<Rightarrow> Inl e
                  | Inr ys \<Rightarrow> Inr (y # ys)))"

text \<open>\<open>tff.federated_map(fn, arg)\<close>.\<close>

definition federated_map :: "('a \<Rightarrow> tf_error + 'b) \<Rightarrow> 'a list \<Rightarrow> tf_error + 'b list" where
  "federated_map fn arg = (if arg = [] then Inl ValueError else run_members fn arg)"

text \<open>The float sum of the members, from \<open>0.0\<close>.\<close>

definition sum_members :: "f32 list \<Rightarrow> f32" where
  "sum_members val = foldl tf_add (Finite 0) val"

text \<open>
  \<open>tff.federated_mean(value, weight=None)\<close>: the sum of the members over their
  number, or with weights the sum of the weighted members over the sum of the
  weights.  The weights are placed at the same clients as the values.
\<close>

definition federated_mean :: "f32 list \<Rightarrow> f32 list option \<Rightarrow> tf_error + f32" where
  "federated_mean val weight =
     (if val = [] then Inl ValueError
      else (case weight of
              None \<Rightarrow> Inr (tf_truediv (sum_members val) (Finite (of_nat (length val))))
            | Some w \<Rightarrow>
                (if length w \<noteq> length val then Inl ValueError
                 else Inr (tf_truediv (sum_members (map2 tf_multiply val w))
                             (sum_members w)))))"

section \<open>The computations of the notebook\<close>

definition hello_world :: "tf_error + string" where
  "hello_world = Inr ''Hello, World!''"

definition compute_average_temperature :: "f32 list \<Rightarrow> tf_error + f32" where
  "compute_average_temperature sensor_readings = federated_mean sensor_readings None"

definition top_1_compression :: "rat list \<Rightarrow> tf_error + rat list" where
  "top_1_compression gradients =
     (case top_k (tf_abs gradients) 1 of
        Inl e \<Rightarrow> Inl e
      | Inr (_, indices) \<Rightarrow>
          (case tf_gather gradients indices of
             Inl e \<Rightarrow> Inl e
           | Inr updates \<Rightarrow>
               tensor_scatter_nd_add (zeros_like gradients) (expand_dims indices) updates))"

definition federated_top_1_compression :: "rat list list \<Rightarrow> tf_error + rat list list" where
  "federated_top_1_compression gradients = federated_map top_1_compression gradients"

definition compute_local_average :: "f32 list \<Rightarrow> tf_error + f32" where
  "compute_local_average temperatures =
     (case dataset_reduce (Finite 0, Finite 0)
             (\<lambda>x y. (tf_add (fst x) y, tf_add (snd x) (Finite 1))) temperatures of
        (total', n_obs) \<Rightarrow> Inr (tf_truediv total' n_obs))"

definition compute_number_obs :: "f32 list \<Rightarrow> tf_error + f32" where
  "compute_number_obs temperatures =
     (let size = dataset_reduce (Finite 0) (\<lambda>x _. tf_add x (Finite 1)) temperatures
      in Inr size)"

definition federated_local_average :: "f32 list list \<Rightarrow> tf_error + f32 list" where
  "federated_local_average sensor_readings =
     federated_map compute_local_average sensor_readings"

definition federated_number_obs :: "f32 list list \<Rightarrow> tf_error + f32 list" where
  "federated_number_obs sensor_readings =
     federated_map compute_number_obs sensor_readings"

definition federated_global_average :: "f32 list list \<Rightarrow> tf_error + f32" where
  "federated_global_average sensor_readings =
     (case federated_number_obs sensor_readings of
        Inl e \<Rightarrow> Inl e
      | Inr weights \<Rightarrow>
          (case federated_local_average sensor_readings of
             Inl e \<Rightarrow> Inl e
           | Inr averages \<Rightarrow> federated_mean averages (Some weights)))"

section \<open>The types the notebook declares\<close>

text \<open>
  The TFF type constructors the notebook uses.  A tensor type has an element type and a
  shape (\<open>None\<close> for an unknown dimension); a named tuple type lists its named
  elements; a federated type has a member type, a placement and the all-equal flag.
  The placement literals are \<open>tff.CLIENTS\<close> and \<open>tff.SERVER\<close>.
\<close>

datatype dtype = float32

datatype placement = CLIENTS | SERVER

datatype tff_type =
    TensorType dtype "nat option list"
  | NamedTupleType "(string \<times> tff_type) list"
  | SequenceType tff_type
  | FederatedType tff_type placement bool

text \<open>\<open>tf.float32\<close> given where a type is expected is the scalar tensor type.\<close>

definition tf_float32 :: tff_type where
  "tf_float32 = TensorType float32 []"

text \<open>The placement tags that occur in a type, outermost first.\<close>

fun placements_of :: "tff_type \<Rightarrow> placement list" where
  "placements_of (TensorType d shape) = []"
| "placements_of (NamedTupleType elements) = concat (map (\<lambda>(name, t). placements_of t) elements)"
| "placements_of (SequenceType element) = placements_of element"
| "placements_of (FederatedType member p all_equal) = p # placements_of member"

text \<open>
  The type declarations of the notebook, in its order.  A federated type built without
  \<open>all_equal\<close> at the clients is not all-equal.
\<close>

definition temperature_type :: tff_type where
  "temperature_type = FederatedType tf_float32 CLIENTS False"

definition hyperparameter_type :: tff_type where
  "hyperparameter_type = FederatedType tf_float32 CLIENTS True"

definition linear_regression_type :: tff_type where
  "linear_regression_type = NamedTupleType [(''m'', tf_float32), (''b'', tf_float32)]"

definition model_parameters :: tff_type where
  "model_parameters = FederatedType linear_regression_type CLIENTS True"

definition SENSOR_READINGS_TYPE :: tff_type where
  "SENSOR_READINGS_TYPE = FederatedType tf_float32 CLIENTS False"

definition COMPRESSOR_TYPE :: tff_type where
  "COMPRESSOR_TYPE = TensorType float32 [None]"

text \<open>
  The parameter type of \<open>federated_top_1_compression\<close>, the sequence type shown on
  its own, and the parameter type of \<open>federated_local_average\<close>,
  \<open>federated_number_obs\<close> and \<open>federated_global_average\<close> are written inline
  in the notebook; they are named here.
\<close>

definition federated_compressor_type :: tff_type where
  "federated_compressor_type = FederatedType COMPRESSOR_TYPE CLIENTS False"

definition sequence_type :: tff_type where
  "sequence_type = SequenceType tf_float32"

definition federated_sequence_type :: tff_type where
  "federated_sequence_type = FederatedType (SequenceType tf_float32) CLIENTS False"

definition declared_types :: "tff_type list" where
  "declared_types =
     [temperature_type, hyperparameter_type, linear_regression_type, model_parameters,
      SENSOR_READINGS_TYPE, COMPRESSOR_TYPE, federated_compressor_type, sequence_type,
      federated_sequence_type]"

section \<open>The plain mean\<close>

text \<open>
  The arithmetic mean of a sequence as the specification words it: the sum of the
  readings over their number.  It is the reference the federated average is compared
  with, not a computation of the notebook.
\<close>

definition arithmetic_mean :: "rat list \<Rightarrow> rat" where
  "arithmetic_mean xs = sum_list xs / of_nat (length xs)"

section \<open>Ranking by stable sort\<close>

text \<open>
  The head of the stable descending sort of an indexed vector is the first position
  that holds the largest entry.
\<close>

lemma first_ranked:
  fixes xs :: "rat list"
  assumes ne: "xs \<noteq> []"
    and r: "sort_key (\<lambda>(i, v). - v) (enumerate 0 xs) = s"
  shows "\<exists>i<length xs. hd s = (i, xs ! i) \<and> s \<noteq> []
           \<and> (\<forall>j<length xs. xs ! j \<le> xs ! i) \<and> (\<forall>j<i. xs ! j < xs ! i)"
proof -
  let ?f = "\<lambda>(i::nat, v::rat). - v"
  let ?es = "enumerate 0 xs"
  have len: "length s = length xs" using r by auto
  then have sne: "s \<noteq> []" using ne by auto
  have sets: "set s = set ?es" using r by auto
  have srt: "sorted (map ?f s)" using r sorted_sort_key[of "\<lambda>(i::nat, v::rat). - v" "enumerate 0 xs"] by simp
  obtain i v where hd_eq: "hd s = (i, v)" by (cases "hd s")
  have "(i, v) \<in> set ?es" using sne sets hd_eq hd_in_set[of s] by simp
  then have i_lt: "i < length xs" and v_eq: "v = xs ! i"
    by (auto simp: in_set_enumerate_eq)
  have maxi: "xs ! j \<le> xs ! i" if "j < length xs" for j
  proof -
    have "(j, xs ! j) \<in> set s" using that sets by (simp add: in_set_enumerate_eq)
    then obtain n where n: "n < length s" "s ! n = (j, xs ! j)"
      by (auto simp: in_set_conv_nth)
    have "map ?f s ! 0 \<le> map ?f s ! n"
      using srt n(1) by (intro sorted_nth_mono) auto
    then show ?thesis using n sne hd_eq v_eq by (simp add: hd_conv_nth)
  qed
  have stab: "filter (\<lambda>y. ?f y = - v) s = filter (\<lambda>y. ?f y = - v) ?es"
    using r sort_key_stable[of ?f "- v" ?es] by simp
  obtain t where s_eq: "s = (i, v) # t" using sne hd_eq by (cases s) auto
  have "filter (\<lambda>y. ?f y = - v) ?es = (i, v) # filter (\<lambda>y. ?f y = - v) t"
    using stab s_eq by simp
  then obtain us vs where split: "?es = us @ (i, v) # vs" and
    before: "\<forall>u\<in>set us. \<not> ?f u = - v"
    unfolding filter_eq_Cons_iff by blast
  have lus: "length us < length xs"
    proof -
    have "length ?es = length us + Suc (length vs)" by (subst split) simp
    then show ?thesis by simp
  qed
  have "?es ! length us = (i, v)" using split by simp
  then have i_us: "i = length us" using lus by (simp add: nth_enumerate_eq)
  have first: "xs ! j < xs ! i" if "j < i" for j
  proof -
    have jl: "j < length xs" using that i_lt by simp
    have "?es ! j = us ! j" using split that i_us by (simp add: nth_append)
    then have "us ! j = (j, xs ! j)" using jl by (simp add: nth_enumerate_eq)
    then have "(j, xs ! j) \<in> set us" using that i_us nth_mem[of j us] by simp
    then have "xs ! j \<noteq> v" using before by auto
    then show ?thesis using maxi[OF jl] v_eq by simp
  qed
  show ?thesis using i_lt hd_eq v_eq sne maxi first by blast
qed

lemma top_k_1_first_largest:
  fixes xs :: "rat list"
  assumes "xs \<noteq> []"
  shows "\<exists>i<length xs. top_k xs 1 = Inr ([xs ! i], [i])
           \<and> (\<forall>j<length xs. xs ! j \<le> xs ! i) \<and> (\<forall>j<i. xs ! j < xs ! i)"
proof -
  obtain s where s: "sort_key (\<lambda>(i, v). - v) (enumerate 0 xs) = s" by simp
  from first_ranked[OF assms s] obtain i where i: "i < length xs" "hd s = (i, xs ! i)"
    "s \<noteq> []" "\<forall>j<length xs. xs ! j \<le> xs ! i" "\<forall>j<i. xs ! j < xs ! i"
    by blast
  have "take 1 s = [(i, xs ! i)]" using i(2,3) by (cases s) simp_all
  moreover have "\<not> length xs < 1" using assms by (cases xs) simp_all
  ultimately have "top_k xs 1 = Inr ([xs ! i], [i])"
    using s by (simp add: top_k_def)
  then show ?thesis using i by blast
qed

section \<open>\<open>top_1_compression\<close>\<close>

text \<open>
  Claim C6.  For every non-empty gradient vector, \<open>top_1_compression\<close> returns a
  vector of the same length that is zero at every index except one index \<open>i\<close>, where
  it holds the input's entry; \<open>i\<close> attains the largest absolute value of the input and
  every earlier entry has a strictly smaller absolute value, so \<open>i\<close> is the smallest
  such index.
\<close>

theorem top_1_compression_first_largest:
  assumes "gradients \<noteq> []"
  shows "\<exists>r i. top_1_compression gradients = Inr r \<and> length r = length gradients
           \<and> i < length gradients \<and> r ! i = gradients ! i
           \<and> (\<forall>j<length gradients. j \<noteq> i \<longrightarrow> r ! j = 0)
           \<and> (\<forall>j<length gradients. \<bar>gradients ! j\<bar> \<le> \<bar>gradients ! i\<bar>)
           \<and> (\<forall>j<i. \<bar>gradients ! j\<bar> < \<bar>gradients ! i\<bar>)"
proof -
  let ?n = "length gradients"
  have "tf_abs gradients \<noteq> []" using assms by (simp add: tf_abs_def)
  from top_k_1_first_largest[OF this] obtain i where
    i: "i < ?n" and
    tk: "top_k (tf_abs gradients) 1 = Inr ([tf_abs gradients ! i], [i])" and
    mx: "\<forall>j<?n. tf_abs gradients ! j \<le> tf_abs gradients ! i" and
    fs: "\<forall>j<i. tf_abs gradients ! j < tf_abs gradients ! i"
    by (auto simp: tf_abs_def)
  let ?r = "(replicate ?n (0::rat))[i := gradients ! i]"
  have "top_1_compression gradients = Inr ?r"
    using tk i by (simp add: top_1_compression_def zeros_like_def expand_dims_def)
  moreover have "\<forall>j<?n. \<bar>gradients ! j\<bar> \<le> \<bar>gradients ! i\<bar>"
    using mx i by (simp add: tf_abs_def)
  moreover have "\<forall>j<i. \<bar>gradients ! j\<bar> < \<bar>gradients ! i\<bar>"
    using fs i by (simp add: tf_abs_def)
  moreover have "length ?r = ?n" by simp
  moreover have "?r ! i = gradients ! i" using i by simp
  moreover have "\<forall>j<?n. j \<noteq> i \<longrightarrow> ?r ! j = 0" by simp
  ultimately show ?thesis using i by blast
qed

text \<open>The theorem at the vector \<open>[3, -7, 7, 2]\<close>, whose largest magnitude occurs twice.\<close>

theorem top_1_compression_first_largest_witness:
  "[3, - 7, 7, 2] \<noteq> ([] :: rat list) \<and>
   (\<exists>r i. top_1_compression [3, - 7, 7, 2] = Inr r \<and> length r = length [3, - 7, 7, 2 :: rat]
           \<and> i < length [3, - 7, 7, 2 :: rat] \<and> r ! i = [3, - 7, 7, 2] ! i
           \<and> (\<forall>j<length [3, - 7, 7, 2 :: rat]. j \<noteq> i \<longrightarrow> r ! j = 0)
           \<and> (\<forall>j<length [3, - 7, 7, 2 :: rat]. \<bar>[3, - 7, 7, 2 :: rat] ! j\<bar> \<le> \<bar>[3, - 7, 7, 2] ! i\<bar>)
           \<and> (\<forall>j<i. \<bar>[3, - 7, 7, 2 :: rat] ! j\<bar> < \<bar>[3, - 7, 7, 2] ! i\<bar>))"
proof -
  have h: "[3, - 7, 7, 2] \<noteq> ([] :: rat list)" by simp
  show ?thesis using h top_1_compression_first_largest[OF h] by (rule conjI)
qed


section \<open>\<open>federated_map\<close>\<close>

text \<open>A run over the members succeeds exactly when the computation succeeds at each.\<close>

lemma run_members_Inr_iff:
  "run_members fn xs = Inr ys \<longleftrightarrow> list_all2 (\<lambda>x y. fn x = Inr y) xs ys"
proof (induction xs arbitrary: ys)
  case Nil
  show ?case by auto
next
  case (Cons x xs)
  show ?case
  proof (cases "fn x")
    case (Inl e)
    then show ?thesis by (auto simp: list_all2_Cons1)
  next
    case (Inr y)
    then show ?thesis using Cons.IH
      by (cases "run_members fn xs") (auto simp: list_all2_Cons1)
  qed
qed

lemma run_members_all_ok:
  "\<forall>x\<in>set xs. fn x = Inr (g x) \<Longrightarrow> run_members fn xs = Inr (map g xs)"
  by (induction xs) simp_all

text \<open>It fails with the failure of the first member that fails.\<close>

lemma run_members_Inl_iff:
  "run_members fn xs = Inl e \<longleftrightarrow>
     (\<exists>k<length xs. fn (xs ! k) = Inl e \<and> (\<forall>j<k. \<exists>y. fn (xs ! j) = Inr y))"
proof (induction xs)
  case Nil
  show ?case by simp
next
  case (Cons x xs)
  show ?case
  proof (cases "fn x")
    case (Inl e')
    show ?thesis
    proof
      assume "run_members fn (x # xs) = Inl e"
      then have "fn x = Inl e" using Inl by simp
      then have "fn ((x # xs) ! 0) = Inl e \<and> (\<forall>j<0. \<exists>y. fn ((x # xs) ! j) = Inr y)" by simp
      then show "\<exists>k<length (x # xs). fn ((x # xs) ! k) = Inl e \<and> (\<forall>j<k. \<exists>y. fn ((x # xs) ! j) = Inr y)"
        by (intro exI[of _ 0]) simp
    next
      assume "\<exists>k<length (x # xs). fn ((x # xs) ! k) = Inl e \<and> (\<forall>j<k. \<exists>y. fn ((x # xs) ! j) = Inr y)"
      then obtain k where k: "fn ((x # xs) ! k) = Inl e" "\<forall>j<k. \<exists>y. fn ((x # xs) ! j) = Inr y"
        by blast
      have "k = 0"
      proof (rule ccontr)
        assume "k \<noteq> 0"
        then have "\<exists>y. fn ((x # xs) ! 0) = Inr y" using k(2) by blast
        then show False using Inl by simp
      qed
      then show "run_members fn (x # xs) = Inl e" using k(1) Inl by simp
    qed
  next
    case (Inr y)
    have "run_members fn (x # xs) = Inl e \<longleftrightarrow> run_members fn xs = Inl e"
      using Inr by (cases "run_members fn xs") simp_all
    also have "\<dots> \<longleftrightarrow> (\<exists>k<length xs. fn (xs ! k) = Inl e \<and> (\<forall>j<k. \<exists>y. fn (xs ! j) = Inr y))"
      by (rule Cons.IH)
    also have "\<dots> \<longleftrightarrow> (\<exists>k<length (x # xs). fn ((x # xs) ! k) = Inl e \<and> (\<forall>j<k. \<exists>y. fn ((x # xs) ! j) = Inr y))"
      (is "?L \<longleftrightarrow> ?R")
    proof
      assume ?L
      then obtain k where k: "k < length xs" "fn (xs ! k) = Inl e" "\<forall>j<k. \<exists>y. fn (xs ! j) = Inr y"
        by blast
      have "\<forall>j<Suc k. \<exists>y. fn ((x # xs) ! j) = Inr y"
        using k(3) Inr by (auto simp: nth_Cons split: nat.splits)
      then show ?R using k(1,2) by (intro exI[of _ "Suc k"]) simp
    next
      assume ?R
      then obtain k where k: "k < length (x # xs)" "fn ((x # xs) ! k) = Inl e"
        "\<forall>j<k. \<exists>y. fn ((x # xs) ! j) = Inr y" by blast
      then obtain k' where k': "k = Suc k'" using Inr by (cases k) auto
      have "\<forall>j<k'. \<exists>y. fn (xs ! j) = Inr y"
      proof (intro allI impI)
        fix j assume "j < k'"
        then have "Suc j < k" using k' by simp
        then have "\<exists>y. fn ((x # xs) ! Suc j) = Inr y" using k(3) by blast
        then show "\<exists>y. fn (xs ! j) = Inr y" by simp
      qed
      then show ?L using k(1,2) k' by (intro exI[of _ k']) simp
    qed
    finally show ?thesis .
  qed
qed

text \<open>The same for \<open>federated_map\<close>, which also refuses zero members.\<close>

lemma federated_map_Inr_iff:
  "federated_map fn xs = Inr ys \<longleftrightarrow>
     xs \<noteq> [] \<and> length ys = length xs \<and> (\<forall>k<length xs. fn (xs ! k) = Inr (ys ! k))"
  unfolding federated_map_def
  by (auto simp: run_members_Inr_iff list_all2_conv_all_nth)

lemma federated_map_Inl_iff:
  "federated_map fn xs = Inl e \<longleftrightarrow>
     (xs = [] \<and> e = ValueError)
     \<or> (\<exists>k<length xs. fn (xs ! k) = Inl e \<and> (\<forall>j<k. \<exists>y. fn (xs ! j) = Inr y))"
  unfolding federated_map_def
  by (cases "xs = []") (auto simp: run_members_Inl_iff)

lemma federated_map_all_ok:
  "xs \<noteq> [] \<Longrightarrow> \<forall>x\<in>set xs. fn x = Inr (g x) \<Longrightarrow> federated_map fn xs = Inr (map g xs)"
  by (simp add: federated_map_def run_members_all_ok)

text \<open>
  Claim C5, amended.  For every non-empty list of per-client gradient vectors,
  \<open>federated_top_1_compression\<close> returns a list \<open>rs\<close> exactly when \<open>rs\<close> has one
  entry per client, in the clients' order, and the entry of client \<open>k\<close> is what
  \<open>top_1_compression\<close> returns on that client's vector; and it does return a list
  when no client's vector is empty.
\<close>

theorem federated_top_1_compression_pointwise:
  assumes "gradients \<noteq> []"
  shows "(federated_top_1_compression gradients = Inr rs \<longleftrightarrow>
            length rs = length gradients \<and>
            (\<forall>k<length gradients. top_1_compression (gradients ! k) = Inr (rs ! k)))
         \<and> ((\<forall>g\<in>set gradients. g \<noteq> []) \<longrightarrow>
              (\<exists>rs. federated_top_1_compression gradients = Inr rs))"
proof
  show "federated_top_1_compression gradients = Inr rs \<longleftrightarrow>
      length rs = length gradients \<and>
      (\<forall>k<length gradients. top_1_compression (gradients ! k) = Inr (rs ! k))"
    unfolding federated_top_1_compression_def federated_map_Inr_iff
    using assms by simp
next
  show "(\<forall>g\<in>set gradients. g \<noteq> []) \<longrightarrow> (\<exists>rs. federated_top_1_compression gradients = Inr rs)"
  proof
    assume ne: "\<forall>g\<in>set gradients. g \<noteq> []"
    have "\<forall>g\<in>set gradients. \<exists>r. top_1_compression g = Inr r"
    proof
      fix g assume "g \<in> set gradients"
      then have "g \<noteq> []" using ne by blast
      from top_k_1_first_largest[of "tf_abs g"] this obtain i where
        "i < length g" "top_k (tf_abs g) 1 = Inr ([tf_abs g ! i], [i])"
        by (auto simp: tf_abs_def)
      then show "\<exists>r. top_1_compression g = Inr r"
        by (simp add: top_1_compression_def zeros_like_def expand_dims_def)
    qed
    then have "\<forall>g\<in>set gradients. top_1_compression g = Inr (projr (top_1_compression g))"
      by auto
    then have "federated_map top_1_compression gradients
                 = Inr (map (\<lambda>g. projr (top_1_compression g)) gradients)"
      by (rule federated_map_all_ok[OF assms])
    then show "\<exists>rs. federated_top_1_compression gradients = Inr rs"
      by (simp add: federated_top_1_compression_def)
  qed
qed

text \<open>
  The theorem at the three clients of the notebook's own invocation, read at the
  second client.
\<close>

theorem federated_top_1_compression_pointwise_witness:
  "[[1, 2, 3, 4, - 5], [10, 2, 3, 4, - 5, 6], [1, 2, 3, 4]] \<noteq> ([] :: rat list list)
   \<and> federated_top_1_compression [[1, 2, 3, 4, - 5], [10, 2, 3, 4, - 5, 6], [1, 2, 3, 4]]
     = Inr [[0, 0, 0, 0, - 5], [10, 0, 0, 0, 0, 0], [0, 0, 0, 4]]
   \<and> top_1_compression ([[1, 2, 3, 4, - 5], [10, 2, 3, 4, - 5, 6], [1, 2, 3, 4]] ! 1)
       = Inr ([[0, 0, 0, 0, - 5], [10, 0, 0, 0, 0, 0], [0, 0, 0, 4]] ! 1)"
proof -
  let ?gs = "[[1, 2, 3, 4, - 5], [10, 2, 3, 4, - 5, 6], [1, 2, 3, 4 :: rat]]"
  let ?rs = "[[0, 0, 0, 0, - 5], [10, 0, 0, 0, 0, 0], [0, 0, 0, 4 :: rat]]"
  have h: "?gs \<noteq> []" by simp
  have run: "federated_top_1_compression ?gs = Inr ?rs"
    by (simp add: federated_top_1_compression_def federated_map_def top_1_compression_def
        top_k_def tf_abs_def enumerate_eq_zip zeros_like_def expand_dims_def upt_rec)
  have every: "\<forall>k<length ?gs. top_1_compression (?gs ! k) = Inr (?rs ! k)"
    using federated_top_1_compression_pointwise[OF h, of ?rs] run by blast
  have "top_1_compression (?gs ! 1) = Inr (?rs ! 1)"
    by (rule every[rule_format]) simp
  then show ?thesis using run h by blast
qed

text \<open>
  With zero clients the framework refuses the call, so no list is returned for the
  empty list of vectors that claim C5 includes.
\<close>

theorem federated_top_1_compression_zero_clients:
  "federated_top_1_compression [] = Inl ValueError"
  by (simp add: federated_top_1_compression_def federated_map_def)

section \<open>Local and global averages\<close>

lemma sum_from_Finite:
  "foldl tf_add (Finite a) (map Finite xs) = Finite (a + sum_list xs)"
  by (induction xs arbitrary: a) (simp_all add: algebra_simps)

lemma sum_members_Finite: "sum_members (map Finite xs) = Finite (sum_list xs)"
  by (simp add: sum_members_def sum_from_Finite)

lemma reduce_total_count:
  "foldl (\<lambda>x y. (tf_add (fst x) y, tf_add (snd x) (Finite 1))) (t, Finite n) ts
     = (foldl tf_add t ts, Finite (n + of_nat (length ts)))"
  by (induction ts arbitrary: t n) (simp_all add: algebra_simps)

lemma reduce_count:
  "foldl (\<lambda>x _. tf_add x (Finite 1)) (Finite n) ts = Finite (n + of_nat (length ts))"
  by (induction ts arbitrary: n) (simp_all add: algebra_simps)

lemma compute_local_average_eq:
  "compute_local_average ts
     = Inr (tf_truediv (sum_members ts) (Finite (of_nat (length ts))))"
  by (simp add: compute_local_average_def dataset_reduce_def reduce_total_count
      sum_members_def)

lemma compute_local_average_Finite:
  "compute_local_average (map Finite xs)
     = Inr (if xs = [] then NaN else Finite (sum_list xs / of_nat (length xs)))"
  by (simp add: compute_local_average_eq sum_members_Finite)

lemma compute_number_obs_eq: "compute_number_obs ts = Inr (Finite (of_nat (length ts)))"
  by (simp add: compute_number_obs_def dataset_reduce_def reduce_count)

lemma weighted_sum_of_averages:
  "\<forall>xs\<in>set xss. xs \<noteq> [] \<Longrightarrow>
   foldl tf_add (Finite a)
     (map2 tf_multiply (map (\<lambda>xs. Finite (arithmetic_mean xs)) xss)
        (map (\<lambda>xs. Finite (of_nat (length xs))) xss))
     = Finite (a + sum_list (concat xss))"
  by (induction xss arbitrary: a) (simp_all add: arithmetic_mean_def algebra_simps)

lemma total_weight:
  "foldl tf_add (Finite a) (map (\<lambda>xs. Finite (of_nat (length xs))) xss)
     = Finite (a + of_nat (length (concat xss)))"
  by (induction xss arbitrary: a) (simp_all add: algebra_simps)

text \<open>
  Claim C4.  For every non-empty list of non-empty per-client sequences of finite
  readings, \<open>federated_global_average\<close> (the average of the clients' local averages
  weighted by their numbers of observations) returns the plain arithmetic mean of the
  concatenation of all the sequences, in exact rational arithmetic.
\<close>

theorem federated_global_average_is_pooled_mean:
  assumes "sensor_readings \<noteq> []" and "\<forall>xs\<in>set sensor_readings. xs \<noteq> []"
  shows "federated_global_average (map (map Finite) sensor_readings)
           = Inr (Finite (arithmetic_mean (concat sensor_readings)))"
proof -
  let ?s = "map (map Finite) sensor_readings"
  have ne: "?s \<noteq> []" using assms(1) by simp
  have obs: "federated_number_obs ?s
               = Inr (map (\<lambda>xs. Finite (of_nat (length xs))) sensor_readings)"
    unfolding federated_number_obs_def
    by (subst federated_map_all_ok[OF ne, of _ "\<lambda>r. Finite (of_nat (length r))"])
       (simp_all add: compute_number_obs_eq comp_def)
  have avg: "federated_local_average ?s
               = Inr (map (\<lambda>xs. Finite (arithmetic_mean xs)) sensor_readings)"
  proof -
    have "\<forall>r\<in>set ?s. compute_local_average r
            = Inr (tf_truediv (sum_members r) (Finite (of_nat (length r))))"
      by (simp add: compute_local_average_eq)
    then have "federated_map compute_local_average ?s
            = Inr (map (\<lambda>r. tf_truediv (sum_members r) (Finite (of_nat (length r)))) ?s)"
      by (rule federated_map_all_ok[OF ne])
    also have "map (\<lambda>r. tf_truediv (sum_members r) (Finite (of_nat (length r)))) ?s
            = map (\<lambda>xs. Finite (arithmetic_mean xs)) sensor_readings"
      using assms(2) by (simp add: sum_members_Finite arithmetic_mean_def)
    finally show ?thesis by (simp add: federated_local_average_def)
  qed
  obtain xs where xs: "xs \<in> set sensor_readings" using assms(1) by (cases sensor_readings) auto
  then have "xs \<noteq> []" using assms(2) by blast
  then have "concat sensor_readings \<noteq> []" using xs by auto
  then have pos: "(of_nat (length (concat sensor_readings)) :: rat) \<noteq> 0" by simp
  have "federated_global_average ?s
          = Inr (tf_truediv (Finite (sum_list (concat sensor_readings)))
                   (Finite (of_nat (length (concat sensor_readings)))))"
    using assms(1)
    by (simp add: federated_global_average_def obs avg federated_mean_def sum_members_def
        weighted_sum_of_averages[OF assms(2)] total_weight)
  then show ?thesis using pos by (simp add: arithmetic_mean_def)
qed

text \<open>
  The theorem at the clients \<open>[1, 2]\<close> and \<open>[6]\<close>: the pooled mean is 3, while the
  unweighted mean of the local averages would be \<open>15/4\<close>.
\<close>

theorem federated_global_average_is_pooled_mean_witness:
  "[[1, 2], [6]] \<noteq> ([] :: rat list list) \<and> [1, 2] \<noteq> ([] :: rat list) \<and> [6] \<noteq> ([] :: rat list)
   \<and> federated_global_average (map (map Finite) [[1, 2], [6]])
       = Inr (Finite (arithmetic_mean (concat [[1, 2], [6]])))
   \<and> arithmetic_mean (concat [[1, 2], [6]]) = 3"
proof -
  have h1: "[[1, 2], [6]] \<noteq> ([] :: rat list list)" by simp
  have h2: "\<forall>xs\<in>set [[1, 2], [6 :: rat]]. xs \<noteq> []" by simp
  have "arithmetic_mean (concat [[1, 2], [6]]) = 3" by (simp add: arithmetic_mean_def)
  then show ?thesis using federated_global_average_is_pooled_mean[OF h1 h2] by simp
qed

lemmas average_defs =
  federated_global_average_def federated_number_obs_def federated_local_average_def
  federated_map_def compute_number_obs_def compute_local_average_def dataset_reduce_def
  federated_mean_def sum_members_def

text \<open>
  Claim C1, amended.  On the per-client sequences
  \<open>[[68, 70], [71], [68, 72, 70]]\<close> the weights produced by
  \<open>federated_number_obs\<close> are \<open>[2, 1, 3]\<close>, the local averages are
  \<open>[69, 71, 70]\<close>, and \<open>federated_global_average\<close> returns their weighted mean
  \<open>(2 * 69 + 71 + 3 * 70) / 6\<close>, which is \<open>419/6\<close> (about 69.83).
\<close>

theorem federated_global_average_example:
  "federated_number_obs [[Finite 68, Finite 70], [Finite 71], [Finite 68, Finite 72, Finite 70]]
     = Inr [Finite 2, Finite 1, Finite 3]
   \<and> federated_local_average [[Finite 68, Finite 70], [Finite 71], [Finite 68, Finite 72, Finite 70]]
     = Inr [Finite 69, Finite 71, Finite 70]
   \<and> federated_global_average [[Finite 68, Finite 70], [Finite 71], [Finite 68, Finite 72, Finite 70]]
     = Inr (Finite ((2 * 69 + 71 + 3 * 70) / 6))
   \<and> ((2 * 69 + 71 + 3 * 70) / 6 :: rat) = 419 / 6"
  by (simp add: average_defs)

text \<open>
  The value 70 that claim C1 gives for this invocation is not what is returned.
\<close>

theorem federated_global_average_example_not_70:
  "federated_global_average [[Finite 68, Finite 70], [Finite 71], [Finite 68, Finite 72, Finite 70]]
     \<noteq> Inr (Finite 70)"
  by (simp add: average_defs)

text \<open>
  Claim C2.  On the client-held readings \<open>[2.3, 4.5, 6.7]\<close>,
  \<open>compute_average_temperature\<close> returns their arithmetic mean
  \<open>(2.3 + 4.5 + 6.7) / 3\<close>; and on every non-empty list of finite readings it
  returns the sum of the readings over their number.
\<close>

theorem compute_average_temperature_is_mean:
  "compute_average_temperature [Finite 2.3, Finite 4.5, Finite 6.7]
     = Inr (Finite ((2.3 + 4.5 + 6.7) / 3))
   \<and> (xs \<noteq> [] \<longrightarrow>
        compute_average_temperature (map Finite xs)
          = Inr (Finite (sum_list xs / of_nat (length xs))))"
proof
  show "compute_average_temperature [Finite 2.3, Finite 4.5, Finite 6.7]
          = Inr (Finite ((2.3 + 4.5 + 6.7) / 3))"
    by (simp add: compute_average_temperature_def federated_mean_def sum_members_def)
next
  show "xs \<noteq> [] \<longrightarrow>
        compute_average_temperature (map Finite xs)
          = Inr (Finite (sum_list xs / of_nat (length xs)))"
    by (simp add: compute_average_temperature_def federated_mean_def sum_members_Finite)
qed

text \<open>
  The theorem at the readings \<open>[1, 2, 6]\<close>, whose mean 3 is none of them.
\<close>

theorem compute_average_temperature_is_mean_witness:
  "[1, 2, 6] \<noteq> ([] :: rat list)
   \<and> compute_average_temperature (map Finite [1, 2, 6]) = Inr (Finite 3)"
proof -
  have h: "[1, 2, 6] \<noteq> ([] :: rat list)" by simp
  have "compute_average_temperature (map Finite [1, 2, 6])
          = Inr (Finite (sum_list [1, 2, 6] / of_nat (length [1, 2, 6 :: rat])))"
    using compute_average_temperature_is_mean[of "[1, 2, 6]"] h by blast
  then show ?thesis by simp
qed

text \<open>
  Claim C7, amended.  On a sequence of finite readings the reduce of
  \<open>compute_local_average\<close> starts at \<open>(0, 0)\<close> and ends with the total and the
  count; the unguarded division meets a zero divisor exactly for the empty sequence,
  where \<open>0.0 / 0.0\<close> is NaN; a non-empty sequence gives the total over the count;
  and no sequence of floats makes the computation fail.
\<close>

theorem compute_local_average_zero_divisor:
  "dataset_reduce (Finite 0, Finite 0)
       (\<lambda>x y. (tf_add (fst x) y, tf_add (snd x) (Finite 1))) (map Finite temperatures)
     = (Finite (sum_list temperatures), Finite (of_nat (length temperatures)))
   \<and> (compute_local_average (map Finite temperatures) = Inr NaN \<longleftrightarrow> temperatures = [])
   \<and> (temperatures \<noteq> [] \<longrightarrow>
        compute_local_average (map Finite temperatures)
          = Inr (Finite (sum_list temperatures / of_nat (length temperatures))))
   \<and> compute_local_average readings \<noteq> Inl e"
proof (intro conjI)
  show "dataset_reduce (Finite 0, Finite 0)
       (\<lambda>x y. (tf_add (fst x) y, tf_add (snd x) (Finite 1))) (map Finite temperatures)
     = (Finite (sum_list temperatures), Finite (of_nat (length temperatures)))"
    by (simp add: dataset_reduce_def reduce_total_count sum_from_Finite)
  show "compute_local_average (map Finite temperatures) = Inr NaN \<longleftrightarrow> temperatures = []"
    by (simp add: compute_local_average_Finite)
  show "temperatures \<noteq> [] \<longrightarrow>
        compute_local_average (map Finite temperatures)
          = Inr (Finite (sum_list temperatures / of_nat (length temperatures)))"
    by (simp add: compute_local_average_Finite)
  show "compute_local_average readings \<noteq> Inl e"
    by (simp add: compute_local_average_eq)
qed

text \<open>
  The theorem at the empty sequence and at the notebook's \<open>[1, 2, 3, 4, 5]\<close>.
\<close>

theorem compute_local_average_zero_divisor_witness:
  "compute_local_average (map Finite []) = Inr NaN
   \<and> [1, 2, 3, 4, 5] \<noteq> ([] :: rat list)
   \<and> compute_local_average (map Finite [1, 2, 3, 4, 5]) = Inr (Finite 3)"
proof -
  have h: "[1, 2, 3, 4, 5] \<noteq> ([] :: rat list)" by simp
  have a: "compute_local_average (map Finite []) = Inr NaN"
    using compute_local_average_zero_divisor[of "[]"] by blast
  have "compute_local_average (map Finite [1, 2, 3, 4, 5])
          = Inr (Finite (sum_list [1, 2, 3, 4, 5] / of_nat (length [1, 2, 3, 4, 5 :: rat])))"
    using compute_local_average_zero_divisor[of "[1, 2, 3, 4, 5]"] h by blast
  then have "compute_local_average (map Finite [1, 2, 3, 4, 5]) = Inr (Finite 3)" by simp
  then show ?thesis using a h by blast
qed

text \<open>
  On the empty sequence the result is the value NaN and not an error, against the
  error branch of claim C7.
\<close>

theorem compute_local_average_empty_is_nan:
  "compute_local_average [] = Inr NaN"
  by (simp add: compute_local_average_def dataset_reduce_def)

section \<open>Placements in the declared types\<close>

lemmas declared_defs =
  declared_types_def temperature_type_def hyperparameter_type_def linear_regression_type_def
  model_parameters_def SENSOR_READINGS_TYPE_def COMPRESSOR_TYPE_def
  federated_compressor_type_def sequence_type_def federated_sequence_type_def tf_float32_def

text \<open>
  Claim C8, amended.  Every placement tag in a type the notebook declares is the
  clients literal; each declared type either carries no placement or is a federated
  type built with the clients placement (and an all-equal flag) over a member type that
  carries none; so the tags sit on value types only.
\<close>

theorem declared_placements_are_clients:
  "set (concat (map placements_of declared_types)) = {CLIENTS}
   \<and> list_all (\<lambda>t. placements_of t = []
                    \<or> (\<exists>member all_equal. t = FederatedType member CLIENTS all_equal
                                             \<and> placements_of member = []))
        declared_types
   \<and> placements_of temperature_type = [CLIENTS]
   \<and> placements_of hyperparameter_type = [CLIENTS]
   \<and> placements_of model_parameters = [CLIENTS]"
  by (auto simp: declared_defs)

text \<open>
  The server literal occurs in no type the notebook declares, against the last part
  of claim C8.
\<close>

theorem server_not_in_declared_types:
  "SERVER \<notin> set (concat (map placements_of declared_types))"
  by (simp add: declared_defs)

section \<open>Failures\<close>

text \<open>
  \<open>top_1_compression\<close> fails only where \<open>tf.math.top_k\<close> does: once the top
  entry is found, the gather and the scatter are in range.
\<close>

lemma top_1_compression_fails_iff:
  "top_1_compression g = Inl e \<longleftrightarrow> top_k (tf_abs g) 1 = Inl e"
proof (cases "g = []")
  case True
  then show ?thesis by (simp add: top_1_compression_def top_k_def tf_abs_def)
next
  case False
  then have "tf_abs g \<noteq> []" by (simp add: tf_abs_def)
  from top_k_1_first_largest[OF this] obtain i where
    "i < length g" "top_k (tf_abs g) 1 = Inr ([tf_abs g ! i], [i])"
    by (auto simp: tf_abs_def)
  then show ?thesis
    by (simp add: top_1_compression_def zeros_like_def expand_dims_def)
qed

lemma top_1_compression_returns_iff:
  "top_1_compression g = Inr c \<longleftrightarrow>
     (\<exists>vals idx u. top_k (tf_abs g) 1 = Inr (vals, idx) \<and> tf_gather g idx = Inr u
        \<and> tensor_scatter_nd_add (zeros_like g) (expand_dims idx) u = Inr c)"
  by (auto simp: top_1_compression_def split: sum.splits prod.splits)

lemma federated_global_average_fails_iff:
  "federated_global_average s = Inl e \<longleftrightarrow>
     federated_number_obs s = Inl e
     \<or> (\<exists>w. federated_number_obs s = Inr w
             \<and> (federated_local_average s = Inl e
                 \<or> (\<exists>a. federated_local_average s = Inr a
                         \<and> federated_mean a (Some w) = Inl e)))"
  by (auto simp: federated_global_average_def split: sum.splits)

lemma federated_global_average_returns_iff:
  "federated_global_average s = Inr v \<longleftrightarrow>
     (\<exists>w a. federated_number_obs s = Inr w \<and> federated_local_average s = Inr a
        \<and> federated_mean a (Some w) = Inr v)"
  by (auto simp: federated_global_average_def split: sum.splits)

text \<open>
  Claim C10.  No computation of the notebook has a failure of its own or changes
  one.  \<open>hello_world\<close> returns its literal.  \<open>compute_average_temperature\<close> fails
  and returns as its \<open>federated_mean\<close> does.  \<open>top_1_compression\<close> fails exactly
  when \<open>tf.math.top_k\<close> does, with the same error, and returns what the scatter
  returns.  \<open>compute_local_average\<close> and \<open>compute_number_obs\<close> always return: the
  float quotient of the sum by the count, and the count.  Each of
  \<open>federated_top_1_compression\<close>, \<open>federated_local_average\<close> and
  \<open>federated_number_obs\<close> fails with the framework's \<open>ValueError\<close> on zero clients and
  otherwise with the error of the first client whose local computation fails, and
  returns the clients' results in order.  \<open>federated_global_average\<close> fails with
  \<open>e\<close> exactly when \<open>federated_number_obs\<close>, \<open>federated_local_average\<close> or the
  final \<open>federated_mean\<close> fails with \<open>e\<close>, and returns \<open>v\<close> exactly when that
  \<open>federated_mean\<close> of the local averages and weights returns \<open>v\<close>.
\<close>

theorem notebook_failures_are_framework_failures:
  "hello_world = Inr ''Hello, World!''
   \<and> (compute_average_temperature r = Inl e \<longleftrightarrow> federated_mean r None = Inl e)
   \<and> (compute_average_temperature r = Inr v \<longleftrightarrow> federated_mean r None = Inr v)
   \<and> (top_1_compression g = Inl e \<longleftrightarrow> top_k (tf_abs g) 1 = Inl e)
   \<and> (top_1_compression g = Inr c \<longleftrightarrow>
        (\<exists>vals idx u. top_k (tf_abs g) 1 = Inr (vals, idx) \<and> tf_gather g idx = Inr u
           \<and> tensor_scatter_nd_add (zeros_like g) (expand_dims idx) u = Inr c))
   \<and> (federated_top_1_compression gs = Inl e \<longleftrightarrow>
        (gs = [] \<and> e = ValueError)
        \<or> (\<exists>k<length gs. top_1_compression (gs ! k) = Inl e
                          \<and> (\<forall>j<k. \<exists>y. top_1_compression (gs ! j) = Inr y)))
   \<and> (federated_top_1_compression gs = Inr cs \<longleftrightarrow>
        gs \<noteq> [] \<and> length cs = length gs
        \<and> (\<forall>k<length gs. top_1_compression (gs ! k) = Inr (cs ! k)))
   \<and> compute_local_average ts
       = Inr (tf_truediv (sum_members ts) (Finite (of_nat (length ts))))
   \<and> compute_number_obs ts = Inr (Finite (of_nat (length ts)))
   \<and> (federated_local_average s = Inl e \<longleftrightarrow>
        (s = [] \<and> e = ValueError)
        \<or> (\<exists>k<length s. compute_local_average (s ! k) = Inl e
                         \<and> (\<forall>j<k. \<exists>y. compute_local_average (s ! j) = Inr y)))
   \<and> (federated_local_average s = Inr a \<longleftrightarrow>
        s \<noteq> [] \<and> length a = length s
        \<and> (\<forall>k<length s. compute_local_average (s ! k) = Inr (a ! k)))
   \<and> (federated_number_obs s = Inl e \<longleftrightarrow>
        (s = [] \<and> e = ValueError)
        \<or> (\<exists>k<length s. compute_number_obs (s ! k) = Inl e
                         \<and> (\<forall>j<k. \<exists>y. compute_number_obs (s ! j) = Inr y)))
   \<and> (federated_number_obs s = Inr w \<longleftrightarrow>
        s \<noteq> [] \<and> length w = length s
        \<and> (\<forall>k<length s. compute_number_obs (s ! k) = Inr (w ! k)))
   \<and> (federated_global_average s = Inl e \<longleftrightarrow>
        federated_number_obs s = Inl e
        \<or> (\<exists>w. federated_number_obs s = Inr w
                \<and> (federated_local_average s = Inl e
                    \<or> (\<exists>a. federated_local_average s = Inr a
                            \<and> federated_mean a (Some w) = Inl e))))
   \<and> (federated_global_average s = Inr v \<longleftrightarrow>
        (\<exists>w a. federated_number_obs s = Inr w \<and> federated_local_average s = Inr a
           \<and> federated_mean a (Some w) = Inr v))"
proof (intro conjI)
  show "hello_world = Inr ''Hello, World!''" by (simp add: hello_world_def)
  show "compute_average_temperature r = Inl e \<longleftrightarrow> federated_mean r None = Inl e"
    by (simp add: compute_average_temperature_def)
  show "compute_average_temperature r = Inr v \<longleftrightarrow> federated_mean r None = Inr v"
    by (simp add: compute_average_temperature_def)
  show "top_1_compression g = Inl e \<longleftrightarrow> top_k (tf_abs g) 1 = Inl e"
    by (rule top_1_compression_fails_iff)
  show "top_1_compression g = Inr c \<longleftrightarrow>
        (\<exists>vals idx u. top_k (tf_abs g) 1 = Inr (vals, idx) \<and> tf_gather g idx = Inr u
           \<and> tensor_scatter_nd_add (zeros_like g) (expand_dims idx) u = Inr c)"
    by (rule top_1_compression_returns_iff)
  show "federated_top_1_compression gs = Inl e \<longleftrightarrow>
        (gs = [] \<and> e = ValueError)
        \<or> (\<exists>k<length gs. top_1_compression (gs ! k) = Inl e
                          \<and> (\<forall>j<k. \<exists>y. top_1_compression (gs ! j) = Inr y))"
    unfolding federated_top_1_compression_def by (rule federated_map_Inl_iff)
  show "federated_top_1_compression gs = Inr cs \<longleftrightarrow>
        gs \<noteq> [] \<and> length cs = length gs
        \<and> (\<forall>k<length gs. top_1_compression (gs ! k) = Inr (cs ! k))"
    unfolding federated_top_1_compression_def by (rule federated_map_Inr_iff)
  show "compute_local_average ts
       = Inr (tf_truediv (sum_members ts) (Finite (of_nat (length ts))))"
    by (rule compute_local_average_eq)
  show "compute_number_obs ts = Inr (Finite (of_nat (length ts)))"
    by (rule compute_number_obs_eq)
  show "federated_local_average s = Inl e \<longleftrightarrow>
        (s = [] \<and> e = ValueError)
        \<or> (\<exists>k<length s. compute_local_average (s ! k) = Inl e
                         \<and> (\<forall>j<k. \<exists>y. compute_local_average (s ! j) = Inr y))"
    unfolding federated_local_average_def by (rule federated_map_Inl_iff)
  show "federated_local_average s = Inr a \<longleftrightarrow>
        s \<noteq> [] \<and> length a = length s
        \<and> (\<forall>k<length s. compute_local_average (s ! k) = Inr (a ! k))"
    unfolding federated_local_average_def by (rule federated_map_Inr_iff)
  show "federated_number_obs s = Inl e \<longleftrightarrow>
        (s = [] \<and> e = ValueError)
        \<or> (\<exists>k<length s. compute_number_obs (s ! k) = Inl e
                         \<and> (\<forall>j<k. \<exists>y. compute_number_obs (s ! j) = Inr y))"
    unfolding federated_number_obs_def by (rule federated_map_Inl_iff)
  show "federated_number_obs s = Inr w \<longleftrightarrow>
        s \<noteq> [] \<and> length w = length s
        \<and> (\<forall>k<length s. compute_number_obs (s ! k) = Inr (w ! k))"
    unfolding federated_number_obs_def by (rule federated_map_Inr_iff)
  show "federated_global_average s = Inl e \<longleftrightarrow>
        federated_number_obs s = Inl e
        \<or> (\<exists>w. federated_number_obs s = Inr w
                \<and> (federated_local_average s = Inl e
                    \<or> (\<exists>a. federated_local_average s = Inr a
                            \<and> federated_mean a (Some w) = Inl e)))"
    by (rule federated_global_average_fails_iff)
  show "federated_global_average s = Inr v \<longleftrightarrow>
        (\<exists>w a. federated_number_obs s = Inr w \<and> federated_local_average s = Inr a
           \<and> federated_mean a (Some w) = Inr v)"
    by (rule federated_global_average_returns_iff)
qed

text \<open>
  The theorem at zero clients, at an empty gradient vector alone and as the second
  of two clients, and at two clients of which the second holds no reading: that
  client's local average is NaN, a value, and the call returns.
\<close>

theorem notebook_failures_are_framework_failures_witness:
  "federated_number_obs [] = Inl ValueError
   \<and> federated_global_average [] = Inl ValueError
   \<and> top_k (tf_abs []) 1 = Inl InvalidArgument
   \<and> top_1_compression [] = Inl InvalidArgument
   \<and> federated_top_1_compression [[1], []] = Inl InvalidArgument
   \<and> federated_local_average [[Finite 1], []] = Inr [Finite 1, NaN]"
proof -
  note zero = notebook_failures_are_framework_failures
    [where r = "[]" and e = ValueError and v = NaN and g = "[]" and c = "[]" and gs = "[]"
       and cs = "[]" and ts = "[]" and s = "[]" and a = "[]" and w = "[]"]
  note two = notebook_failures_are_framework_failures
    [where r = "[]" and e = InvalidArgument and v = NaN and g = "[]" and c = "[]"
       and gs = "[[1], []]" and cs = "[]" and ts = "[]" and s = "[[Finite 1], []]"
       and a = "[Finite 1, NaN]" and w = "[]"]
  have obs_iff: "federated_number_obs [] = Inl ValueError \<longleftrightarrow>
        (([] :: f32 list list) = [] \<and> ValueError = ValueError)
        \<or> (\<exists>k<length ([] :: f32 list list). compute_number_obs ([] ! k) = Inl ValueError
                         \<and> (\<forall>j<k. \<exists>y. compute_number_obs ([] ! j) = Inr y))"
    using zero by (elim conjE)
  have a: "federated_number_obs [] = Inl ValueError"
    unfolding obs_iff by simp
  have avg_iff: "federated_global_average [] = Inl ValueError \<longleftrightarrow>
        federated_number_obs [] = Inl ValueError
        \<or> (\<exists>w. federated_number_obs [] = Inr w
                \<and> (federated_local_average [] = Inl ValueError
                    \<or> (\<exists>a. federated_local_average [] = Inr a
                            \<and> federated_mean a (Some w) = Inl ValueError)))"
    using zero by (elim conjE)
  have b: "federated_global_average [] = Inl ValueError"
    unfolding avg_iff using a by (rule disjI1)
  have c: "top_k (tf_abs []) 1 = Inl InvalidArgument"
    by (simp add: top_k_def tf_abs_def)
  have top_iff: "top_1_compression [] = Inl InvalidArgument \<longleftrightarrow>
        top_k (tf_abs []) 1 = Inl InvalidArgument"
    using two by (elim conjE)
  have d: "top_1_compression [] = Inl InvalidArgument"
    unfolding top_iff by (rule c)
  have d1: "top_1_compression [1] = Inr [1]"
    by (simp add: top_1_compression_def top_k_def tf_abs_def enumerate_eq_zip
        zeros_like_def expand_dims_def upt_rec)
  have fed_iff: "federated_top_1_compression [[1], []] = Inl InvalidArgument \<longleftrightarrow>
        ([[1], []] = ([] :: rat list list) \<and> InvalidArgument = ValueError)
        \<or> (\<exists>k<length [[1], [] :: rat list]. top_1_compression ([[1], []] ! k) = Inl InvalidArgument
                          \<and> (\<forall>j<k. \<exists>y. top_1_compression ([[1], []] ! j) = Inr y))"
    using two by (elim conjE)
  have "top_1_compression ([[1], []] ! 1) = Inl InvalidArgument
          \<and> (\<forall>j<1. \<exists>y. top_1_compression ([[1], []] ! j) = Inr y)"
    using d d1 by simp
  then have "\<exists>k<length [[1], [] :: rat list]. top_1_compression ([[1], []] ! k) = Inl InvalidArgument
          \<and> (\<forall>j<k. \<exists>y. top_1_compression ([[1], []] ! j) = Inr y)"
    by (intro exI[of _ 1]) simp
  then have f: "federated_top_1_compression [[1], []] = Inl InvalidArgument"
    unfolding fed_iff by (rule disjI2)
  have loc_iff: "federated_local_average [[Finite 1], []] = Inr [Finite 1, NaN] \<longleftrightarrow>
        [[Finite 1], []] \<noteq> [] \<and> length [Finite 1, NaN] = length [[Finite 1], []]
        \<and> (\<forall>k<length [[Finite 1], []]. compute_local_average ([[Finite 1], []] ! k)
               = Inr ([Finite 1, NaN] ! k))"
    using two by (elim conjE)
  have "\<forall>k<length [[Finite 1], []]. compute_local_average ([[Finite 1], []] ! k)
          = Inr ([Finite 1, NaN] ! k)"
    by (simp add: less_Suc_eq compute_local_average_def dataset_reduce_def)
  then have h: "federated_local_average [[Finite 1], []] = Inr [Finite 1, NaN]"
    unfolding loc_iff by simp
  show ?thesis using a b c d f h by (intro conjI)
qed

end
